theory Spec2Isabelle
  imports Main
begin

section \<open>Go values of the token command\<close>

text \<open>
  An \<open>error\<close> value of Go. \<open>ErrorString\<close> is an error made by a collaborator (the API
  client, the Secret decoder, the token parser), known by its message only.
  \<open>Errorf\<close>, \<open>Wrap\<close> and \<open>Wrapf\<close> are the three constructors of \<open>github.com/pkg/errors\<close>
  that \<open>token.go\<close> calls; a format string is kept with its arguments, unrendered.
\<close>

datatype error =
    ErrorString string
  | Errorf string "string list"
  | Wrap error string
  | Wrapf error string "string list"

text \<open>An argument of a \<open>fmt.Fprintf\<close> call: a string or an error.\<close>

datatype arg = S string | E error

text \<open>
  What a writer receives. \<open>Fprintf f args\<close> is one call \<open>fmt.Fprintf(w, f, args...)\<close>, the
  format kept with its arguments. \<open>Tabwriter ls\<close> is one \<open>Flush\<close> of a
  \<open>text/tabwriter\<close> writer to which the lines \<open>ls\<close> were written with \<open>fmt.Fprintln\<close>, each
  line a sequence of cells separated by tabs; the padding of the cells that the tabwriter
  does is the library's and is not part of the model.
\<close>

datatype emitted = Fprintf string "arg list" | Tabwriter "string list"

text \<open>A call issued to the Secrets client: namespace, then the selector or the name.\<close>

datatype call =
    ListCall string "(string \<times> string) list"
  | DeleteCall string string

definition tab :: string where
  "tab = [CHR 0x09]"

definition newline :: string where
  "newline = [CHR 0x0A]"

text \<open>\<open>strings.Join\<close> of the Go standard library.\<close>

fun strings_Join :: "string list \<Rightarrow> string \<Rightarrow> string" where
  "strings_Join [] sep = []"
| "strings_Join [a] sep = a"
| "strings_Join (a # b # rest) sep = a @ sep @ strings_Join (b # rest) sep"

section \<open>Constants and helpers of the bootstrap-token packages\<close>

text \<open>
  Modelled from the spec: \<open>metav1.NamespaceSystem\<close>, the fixed system namespace of the
  records (the command's help text names it \<open>kube-system\<close>).
\<close>

definition NamespaceSystem :: string where
  "NamespaceSystem = ''kube-system''"

text \<open>
  Modelled from the spec: \<open>bootstrapapi.SecretTypeBootstrapToken\<close>, the type discriminator
  of a bootstrap-token record (the command's help text gives its value).
\<close>

definition SecretTypeBootstrapToken :: string where
  "SecretTypeBootstrapToken = ''bootstrap.kubernetes.io/token''"

text \<open>
  Modelled from the spec: \<open>bootstrapapi.BootstrapTokenIDPattern\<close>, the pattern of the
  6-character ID alone (the help text of \<open>token delete\<close> quotes it).
\<close>

definition BootstrapTokenIDPattern :: string where
  "BootstrapTokenIDPattern = ''[a-z0-9]{6}''"

text \<open>
  Modelled from the spec: the pattern of the full token, section 6 of the spec,
  \<open>^[a-z0-9]{6}\.[a-z0-9]{16}$\<close>. \<open>token.go\<close> never uses it.
\<close>

definition BootstrapTokenPattern :: string where
  "BootstrapTokenPattern = ''^[a-z0-9]{6}'' @ [CHR 0x5C] @ ''.[a-z0-9]{16}$''"

record BootstrapTokenString =
  ID :: string
  Secret :: string

text \<open>The lowercase-alphanumeric characters \<open>[a-z0-9]\<close>.\<close>

definition isTokenChar :: "char \<Rightarrow> bool" where
  "isTokenChar c = (c \<in> set ''abcdefghijklmnopqrstuvwxyz0123456789'')"

text \<open>
  Modelled from the spec: \<open>bootstraputil.IsValidBootstrapTokenID\<close>, the spec's
  \<open>IsValidID\<close>: true iff the string matches the 6-character ID pattern alone.
\<close>

definition IsValidBootstrapTokenID :: "string \<Rightarrow> bool" where
  "IsValidBootstrapTokenID s = (length s = 6 \<and> list_all isTokenChar s)"

text \<open>
  Modelled from the spec: \<open>kubeadmapiv1beta2.NewBootstrapTokenString\<close>, the spec's
  \<open>Parse\<close>: fails with \<open>InvalidFormat\<close> unless the whole string matches
  \<open>^[a-z0-9]{6}\.[a-z0-9]{16}$\<close>; the ID is the part before the dot, the Secret the part
  after it.
\<close>

definition NewBootstrapTokenString :: "string \<Rightarrow> error + BootstrapTokenString" where
  "NewBootstrapTokenString raw =
     (if length raw = 23 \<and> list_all isTokenChar (take 6 raw) \<and> raw ! 6 = CHR ''.''
         \<and> list_all isTokenChar (drop 7 raw)
      then Inr \<lparr>ID = take 6 raw, Secret = drop 7 raw\<rparr>
      else Inl (ErrorString ''InvalidFormat''))"

text \<open>
  Modelled from the spec: \<open>BootstrapTokenString.String\<close>, the spec's \<open>String\<close>: renders
  \<open><ID>.<Secret>\<close>.
\<close>

definition String :: "BootstrapTokenString \<Rightarrow> string" where
  "String bts = ID bts @ ''.'' @ Secret bts"

text \<open>
  Modelled from the spec: \<open>bootstraputil.BootstrapTokenSecretName\<close>, the record name
  derived from the token ID, \<open>bootstrap-token-<ID>\<close>.
\<close>

definition BootstrapTokenSecretName :: "string \<Rightarrow> string" where
  "BootstrapTokenSecretName tokenID = ''bootstrap-token-'' @ tokenID"

text \<open>
  \<open>kubeadmapi.BootstrapToken\<close>, with the attributes of the spec's data model. \<open>'t\<close> is the
  type of a point in time (\<open>metav1.Time\<close>), \<open>'d\<close> that of a duration. \<open>Expires\<close> is a
  pointer in Go, \<open>None\<close> when it is \<open>nil\<close>. A token that is rendered has its \<open>Token\<close> set.
\<close>

record ('t, 'd) BootstrapToken =
  Token :: BootstrapTokenString
  Description :: string
  TTL :: "'d option"
  Expires :: "'t option"
  Usages :: "string list"
  Groups :: "string list"

text \<open>
  The three functions of the time libraries that the rendering calls, taken as they are:
  \<open>Time.Sub\<close> and \<open>Time.Format\<close> with the layout \<open>time.RFC3339\<close> of the Go standard library,
  and \<open>duration.ShortHumanDuration\<close> of apimachinery.
\<close>

record ('t, 'd) timelib =
  Sub :: "'t \<Rightarrow> 't \<Rightarrow> 'd"
  ShortHumanDuration :: "'d \<Rightarrow> string"
  Format_RFC3339 :: "'t \<Rightarrow> string"

section \<open>The world a command runs in\<close>

text \<open>
  The two writers of the command (\<open>out\<close>, \<open>errW\<close>), the calls issued to the Secrets client
  so far, the state of the store behind the client, and the clock: \<open>clock w n\<close> is what
  the \<open>n\<close>-th call of \<open>time.Now\<close> returns, \<open>ticks w\<close> the number of calls made so far.
  The \<open>klog\<close> lines of the commands write to the log only and are left out.
\<close>

record ('s, 't) world =
  out :: "emitted list"
  errW :: "emitted list"
  calls :: "call list"
  store :: 's
  clock :: "nat \<Rightarrow> 't"
  ticks :: nat

definition time_Now :: "('s, 't) world \<Rightarrow> 't \<times> ('s, 't) world" where
  "time_Now w = (clock w (ticks w), w\<lparr>ticks := Suc (ticks w)\<rparr>)"

text \<open>
  \<open>clientset.Interface\<close>, cut down to the two operations of \<open>CoreV1().Secrets(namespace)\<close>
  that the commands call. An implementation is any pair of functions on its own store
  state \<open>'s\<close>; \<open>'secret\<close> is the type of a stored record (\<open>v1.Secret\<close>). The field selector
  of a list call is kept as the set of pairs it was built from.
\<close>

record ('s, 'secret) clientset =
  Secrets_List :: "string \<Rightarrow> (string \<times> string) list \<Rightarrow> 's \<Rightarrow> (error + 'secret list) \<times> 's"
  Secrets_Delete :: "string \<Rightarrow> string \<Rightarrow> 's \<Rightarrow> error option \<times> 's"

definition call_List ::
  "('s, 'secret) clientset \<Rightarrow> string \<Rightarrow> (string \<times> string) list \<Rightarrow> ('s, 't) world
   \<Rightarrow> (error + 'secret list) \<times> ('s, 't) world" where
  "call_List client ns sel w =
     (let (r, s') = Secrets_List client ns sel (store w)
      in (r, w\<lparr>calls := calls w @ [ListCall ns sel], store := s'\<rparr>))"

definition call_Delete ::
  "('s, 'secret) clientset \<Rightarrow> string \<Rightarrow> string \<Rightarrow> ('s, 't) world
   \<Rightarrow> error option \<times> ('s, 't) world" where
  "call_Delete client ns name w =
     (let (r, s') = Secrets_Delete client ns name (store w)
      in (r, w\<lparr>calls := calls w @ [DeleteCall ns name], store := s'\<rparr>))"

section \<open>The rendering of one token\<close>

text \<open>
  \<open>humanReadableBootstrapToken\<close>. The clock is read only when \<open>Expires\<close> is set. The
  \<open>Sprintf\<close> of six \<open>%s\<close> verbs separated by tabs, on six strings, is the six strings with a
  tab between them.
\<close>

definition humanReadableBootstrapToken ::
  "('t, 'd) timelib \<Rightarrow> ('t, 'd) BootstrapToken \<Rightarrow> ('s, 't) world \<Rightarrow> string \<times> ('s, 't) world" where
  "humanReadableBootstrapToken L token w =
     (let description = (if length (Description token) = 0 then ''<none>'' else Description token);
          (ttl, expires, w') =
            (case Expires token of
               None \<Rightarrow> (''<forever>'', ''<never>'', w)
             | Some e \<Rightarrow>
                 (let (now, w1) = time_Now w
                  in (ShortHumanDuration L (Sub L e now), Format_RFC3339 L e, w1)));
          usagesString = strings_Join (Usages token) '','';
          usagesString = (if length usagesString = 0 then ''<none>'' else usagesString);
          groupsString = strings_Join (Groups token) '','';
          groupsString = (if length groupsString = 0 then ''<none>'' else groupsString)
      in (String (Token token) @ tab @ ttl @ tab @ expires @ tab @ usagesString @ tab
            @ description @ tab @ groupsString, w'))"

section \<open>Listing\<close>

definition header :: string where
  "header = ''TOKEN'' @ tab @ ''TTL'' @ tab @ ''EXPIRES'' @ tab @ ''USAGES'' @ tab
              @ ''DESCRIPTION'' @ tab @ ''EXTRA GROUPS''"

text \<open>
  The loop of \<open>RunListTokens\<close> over \<open>secrets.Items\<close>. \<open>tw\<close> is the content of the
  tabwriter. \<open>decode\<close> is \<open>kubeadmapi.BootstrapTokenFromSecret\<close>, taken as it is.
\<close>

fun listLoop ::
  "('t, 'd) timelib \<Rightarrow> ('secret \<Rightarrow> error + ('t, 'd) BootstrapToken) \<Rightarrow> 'secret list
   \<Rightarrow> string list \<times> ('s, 't) world \<Rightarrow> string list \<times> ('s, 't) world" where
  "listLoop L decode [] (tw, w) = (tw, w)"
| "listLoop L decode (secret # rest) (tw, w) =
     (case decode secret of
        Inl err \<Rightarrow> listLoop L decode rest (tw, w\<lparr>errW := errW w @ [Fprintf ''%v'' [E err]]\<rparr>)
      | Inr token \<Rightarrow>
          (let (humanFriendlyTokenOutput, w1) = humanReadableBootstrapToken L token w
           in listLoop L decode rest (tw @ [humanFriendlyTokenOutput], w1)))"

definition RunListTokens ::
  "('t, 'd) timelib \<Rightarrow> ('secret \<Rightarrow> error + ('t, 'd) BootstrapToken) \<Rightarrow> ('s, 'secret) clientset
   \<Rightarrow> ('s, 't) world \<Rightarrow> error option \<times> ('s, 't) world" where
  "RunListTokens L decode client w =
     (case call_List client NamespaceSystem [(''type'', SecretTypeBootstrapToken)] w of
        (Inl err, w1) \<Rightarrow> (Some (Wrap err ''failed to list bootstrap tokens''), w1)
      | (Inr secrets, w1) \<Rightarrow>
          (let (tw, w2) = listLoop L decode secrets ([header], w1)
           in (None, w2\<lparr>out := out w2 @ [Tabwriter tw]\<rparr>)))"

section \<open>Deleting\<close>

text \<open>
  \<open>RunDeleteTokens\<close>: the loop over the inputs. Every \<open>return\<close> inside the loop body ends
  the whole call.
\<close>

fun RunDeleteTokens ::
  "('s, 'secret) clientset \<Rightarrow> string list \<Rightarrow> ('s, 't) world \<Rightarrow> error option \<times> ('s, 't) world" where
  "RunDeleteTokens client [] w = (None, w)"
| "RunDeleteTokens client (tokenIDOrToken # rest) w =
     (case (if \<not> IsValidBootstrapTokenID tokenIDOrToken
            then (case NewBootstrapTokenString tokenIDOrToken of
                    Inl err \<Rightarrow>
                      Inl (Errorf ''given token %q didn't match pattern %q or %q''
                             [tokenIDOrToken, BootstrapTokenIDPattern, BootstrapTokenIDPattern])
                  | Inr bts \<Rightarrow> Inr (ID bts))
            else Inr tokenIDOrToken) of
        Inl e \<Rightarrow> (Some e, w)
      | Inr tokenID \<Rightarrow>
          (let tokenSecretName = BootstrapTokenSecretName tokenID
           in case call_Delete client NamespaceSystem tokenSecretName w of
                (Some err, w1) \<Rightarrow>
                  (Some (Wrapf err ''failed to delete bootstrap token %q'' [tokenID]), w1)
              | (None, w1) \<Rightarrow>
                  RunDeleteTokens client rest
                    (w1\<lparr>out := out w1 @ [Fprintf (''bootstrap token %q deleted'' @ newline)
                                            [S tokenID]]\<rparr>)))"

section \<open>Notions used to state the properties\<close>

text \<open>The cells of a line written to the tabwriter: the pieces between its tabs.\<close>

fun cells :: "string \<Rightarrow> string list" where
  "cells [] = [Nil]"
| "cells (c # cs) =
     (if c = CHR 0x09 then [] # cells cs
      else (case cells cs of [] \<Rightarrow> [c] # [] | x # xs \<Rightarrow> (c # x) # xs))"

text \<open>A field that is shown as \<open><none>\<close> when it is empty.\<close>

definition orNone :: "string \<Rightarrow> string" where
  "orNone s = (if s = [] then ''<none>'' else s)"

text \<open>The records of a list that decode, and the errors of those that do not, in order.\<close>

definition decoded :: "('secret \<Rightarrow> error + 'tok) \<Rightarrow> 'secret list \<Rightarrow> 'tok list" where
  "decoded decode secrets =
     List.map_filter (\<lambda>s. case decode s of Inl e \<Rightarrow> None | Inr t \<Rightarrow> Some t) secrets"

definition decodeErrors :: "('secret \<Rightarrow> error + 'tok) \<Rightarrow> 'secret list \<Rightarrow> error list" where
  "decodeErrors decode secrets =
     List.map_filter (\<lambda>s. case decode s of Inl e \<Rightarrow> Some e | Inr t \<Rightarrow> None) secrets"

text \<open>Rendering a list of tokens one after the other, each with its own reading of the clock.\<close>

fun renderAll ::
  "('t, 'd) timelib \<Rightarrow> ('t, 'd) BootstrapToken list \<Rightarrow> ('s, 't) world
   \<Rightarrow> string list \<times> ('s, 't) world" where
  "renderAll L [] w = ([], w)"
| "renderAll L (t # ts) w =
     (let (r, w1) = humanReadableBootstrapToken L t w;
          (rs, w2) = renderAll L ts w1
      in (r # rs, w2))"

text \<open>
  The token ID that the loop body of \<open>RunDeleteTokens\<close> derives from an input; \<open>None\<close> when
  the input is neither a valid ID nor a full token.
\<close>

definition tokenIDOf :: "string \<Rightarrow> string option" where
  "tokenIDOf x =
     (if IsValidBootstrapTokenID x then Some x
      else (case NewBootstrapTokenString x of Inl e \<Rightarrow> None | Inr bts \<Rightarrow> Some (ID bts)))"

text \<open>The error that \<open>RunDeleteTokens\<close> returns for such an input.\<close>

definition invalidFormat :: "string \<Rightarrow> error" where
  "invalidFormat x =
     Errorf ''given token %q didn't match pattern %q or %q''
       [x, BootstrapTokenIDPattern, BootstrapTokenIDPattern]"

text \<open>What \<open>RunDeleteTokens\<close> writes to \<open>out\<close> for a deleted token, and the call it issues.\<close>

definition deletedLine :: "string \<Rightarrow> emitted" where
  "deletedLine tokenID = Fprintf (''bootstrap token %q deleted'' @ newline) [S tokenID]"

definition deleteCallFor :: "string \<Rightarrow> call" where
  "deleteCallFor tokenID = DeleteCall NamespaceSystem (BootstrapTokenSecretName tokenID)"

text \<open>
  Every input of a batch succeeding, said of the store alone: each input is a valid ID or
  a full token, and the client's delete of its record, issued on the store state that the
  deletes before it have left, returns no error. The result is the store state after the
  last delete; \<open>None\<close> as soon as an input is malformed or a delete returns an error.
\<close>

fun deleteEach :: "('s, 'secret) clientset \<Rightarrow> string list \<Rightarrow> 's \<Rightarrow> 's option" where
  "deleteEach c [] s = Some s"
| "deleteEach c (x # xs) s =
     (case tokenIDOf x of
        None \<Rightarrow> None
      | Some i \<Rightarrow>
          (case Secrets_Delete c NamespaceSystem (BootstrapTokenSecretName i) s of
             (Some err, s') \<Rightarrow> None
           | (None, s') \<Rightarrow> deleteEach c xs s'))"

section \<open>An in-memory store and a decoder, for running the commands\<close>

text \<open>
  A stored record, and a client over a list of them that meets the interface of section 6
  of the spec: \<open>List\<close> returns the records of the selected type, \<open>Delete\<close> removes the record
  of the given name and fails with \<open>NotFound\<close> if there is none.
\<close>

record v1_Secret =
  secret_Name :: string
  secret_Type :: string
  secret_Data :: "(string \<times> string) list"

definition memClient :: "(v1_Secret list, v1_Secret) clientset" where
  "memClient =
     \<lparr>Secrets_List = (\<lambda>ns sel s.
        (Inr (filter (\<lambda>x. list_all (\<lambda>(k, v). k = ''type'' \<and> secret_Type x = v) sel) s), s)),
      Secrets_Delete = (\<lambda>ns name s.
        if list_ex (\<lambda>x. secret_Name x = name) s
        then (None, filter (\<lambda>x. secret_Name x \<noteq> name) s)
        else (Some (ErrorString ''NotFound''), s))\<rparr>"

text \<open>
  A decoder in the manner of section 4.2 of the spec: a record decodes if its type marks it
  as a bootstrap token and its ID and Secret fields are present and parse as a token, and
  fails with \<open>MalformedRecord\<close> otherwise.
\<close>

definition exampleDecode :: "v1_Secret \<Rightarrow> error + (int, int) BootstrapToken" where
  "exampleDecode x =
     (if secret_Type x \<noteq> SecretTypeBootstrapToken then Inl (ErrorString ''MalformedRecord'')
      else (case (map_of (secret_Data x) ''token-id'', map_of (secret_Data x) ''token-secret'') of
              (Some i, Some s) \<Rightarrow>
                (case NewBootstrapTokenString (i @ ''.'' @ s) of
                   Inl e \<Rightarrow> Inl (ErrorString ''MalformedRecord'')
                 | Inr bts \<Rightarrow>
                     Inr \<lparr>Token = bts, Description = [], TTL = None, Expires = None,
                          Usages = [], Groups = []\<rparr>)
            | _ \<Rightarrow> Inl (ErrorString ''MalformedRecord'')))"

text \<open>
  Time in whole seconds, with a stand-in for each library function: the difference, one
  \<open>s\<close> per second left, and one \<open>T\<close> per second since the epoch.
\<close>

definition exampleLib :: "(int, int) timelib" where
  "exampleLib =
     \<lparr>Sub = (\<lambda>a b. a - b),
      ShortHumanDuration = (\<lambda>d. replicate (nat d) (CHR ''s'')),
      Format_RFC3339 = (\<lambda>t. replicate (nat t) (CHR ''T''))\<rparr>"

definition exampleWorld :: "v1_Secret list \<Rightarrow> (v1_Secret list, int) world" where
  "exampleWorld s = \<lparr>out = [], errW = [], calls = [], store = s, clock = (\<lambda>n. int n), ticks = 0\<rparr>"

definition goodSecret :: v1_Secret where
  "goodSecret =
     \<lparr>secret_Name = ''bootstrap-token-abcdef'', secret_Type = SecretTypeBootstrapToken,
      secret_Data = [(''token-id'', ''abcdef''), (''token-secret'', ''0123456789abcdef'')]\<rparr>"

definition corruptedSecret :: v1_Secret where
  "corruptedSecret =
     \<lparr>secret_Name = ''bootstrap-token-ghijkl'', secret_Type = SecretTypeBootstrapToken,
      secret_Data = [(''token-id'', ''ghijkl'')]\<rparr>"

text \<open>A client whose every delete is refused, the store left as it is.\<close>

definition forbiddenClient :: "(v1_Secret list, v1_Secret) clientset" where
  "forbiddenClient =
     \<lparr>Secrets_List = (\<lambda>ns sel s. (Inr s, s)),
      Secrets_Delete = (\<lambda>ns name s. (Some (ErrorString ''Forbidden''), s))\<rparr>"

definition exampleToken :: "(int, int) BootstrapToken" where
  "exampleToken =
     \<lparr>Token = \<lparr>ID = ''abcdef'', Secret = ''0123456789abcdef''\<rparr>, Description = [], TTL = None,
      Expires = None, Usages = [], Groups = []\<rparr>"

section \<open>Facts about the rendering and the listing loop\<close>

lemma hr_fst:
  "fst (humanReadableBootstrapToken L token w) =
     String (Token token) @ tab
       @ (case Expires token of None \<Rightarrow> ''<forever>''
          | Some e \<Rightarrow> ShortHumanDuration L (Sub L e (clock w (ticks w)))) @ tab
       @ (case Expires token of None \<Rightarrow> ''<never>'' | Some e \<Rightarrow> Format_RFC3339 L e) @ tab
       @ orNone (strings_Join (Usages token) '','') @ tab
       @ orNone (Description token) @ tab
       @ orNone (strings_Join (Groups token) '','')"
  by (simp add: humanReadableBootstrapToken_def time_Now_def orNone_def Let_def split: option.split)

lemma hr_snd:
  "snd (humanReadableBootstrapToken L token w) =
     (case Expires token of None \<Rightarrow> w | Some e \<Rightarrow> w\<lparr>ticks := Suc (ticks w)\<rparr>)"
  by (simp add: humanReadableBootstrapToken_def time_Now_def Let_def split: option.split)

lemma hr_fst_cong:
  "clock w = clock w' \<Longrightarrow> ticks w = ticks w' \<Longrightarrow>
     fst (humanReadableBootstrapToken L t w) = fst (humanReadableBootstrapToken L t w')"
  by (simp add: hr_fst split: option.split)

lemma renderAll_snd:
  "snd (renderAll L ts w) = w\<lparr>ticks := ticks w + length (filter (\<lambda>t. Expires t \<noteq> None) ts)\<rparr>"
proof (induction ts arbitrary: w)
  case Nil
  show ?case by simp
next
  case (Cons t ts)
  show ?case
    by (simp add: split_beta Cons.IH hr_snd split: option.split)
qed

lemma renderAll_fst_cong:
  "clock w = clock w' \<Longrightarrow> ticks w = ticks w' \<Longrightarrow>
     fst (renderAll L ts w) = fst (renderAll L ts w')"
proof (induction ts arbitrary: w w')
  case Nil
  show ?case by simp
next
  case (Cons t ts)
  have h: "fst (humanReadableBootstrapToken L t w) = fst (humanReadableBootstrapToken L t w')"
    using Cons.prems by (rule hr_fst_cong)
  have "fst (renderAll L ts (snd (humanReadableBootstrapToken L t w)))
      = fst (renderAll L ts (snd (humanReadableBootstrapToken L t w')))"
    by (rule Cons.IH) (simp_all add: hr_snd Cons.prems split: option.split)
  with h show ?case
    by (simp add: split_beta)
qed

lemma renderAll_length: "length (fst (renderAll L ts w)) = length ts"
  by (induction ts arbitrary: w) (simp_all add: split_beta)

lemma renderAll_rows_clock:
  fixes w :: "('s, 't) world"
  shows "r \<in> set (fst (renderAll L ts w)) \<Longrightarrow>
     \<exists>t \<in> set ts. \<exists>w' :: ('s, 't) world.
        clock w' = clock w \<and> r = fst (humanReadableBootstrapToken L t w')"
proof (induction ts arbitrary: w)
  case Nil
  then show ?case by simp
next
  case (Cons t ts)
  let ?w1 = "snd (humanReadableBootstrapToken L t w)"
  from Cons.prems
  have "r = fst (humanReadableBootstrapToken L t w) \<or> r \<in> set (fst (renderAll L ts ?w1))"
    by (simp add: split_beta)
  then show ?case
  proof
    assume "r = fst (humanReadableBootstrapToken L t w)"
    then show ?thesis by auto
  next
    assume "r \<in> set (fst (renderAll L ts ?w1))"
    from Cons.IH [OF this] obtain t' and w' :: "('s, 't) world"
      where "t' \<in> set ts" "clock w' = clock ?w1" "r = fst (humanReadableBootstrapToken L t' w')"
      by blast
    moreover have "clock ?w1 = clock w"
      by (simp add: hr_snd split: option.split)
    ultimately show ?thesis by auto
  qed
qed

lemma decoded_Cons:
  "decoded dec (s # ss) = (case dec s of Inl e \<Rightarrow> decoded dec ss | Inr t \<Rightarrow> t # decoded dec ss)"
  by (simp add: decoded_def split: sum.split)

lemma decodeErrors_Cons:
  "decodeErrors dec (s # ss) =
     (case dec s of Inl e \<Rightarrow> e # decodeErrors dec ss | Inr t \<Rightarrow> decodeErrors dec ss)"
  by (simp add: decodeErrors_def split: sum.split)

lemma decoded_Nil: "decoded dec [] = []" and decodeErrors_Nil: "decodeErrors dec [] = []"
  by (simp_all add: decoded_def decodeErrors_def)

lemma listLoop_eq:
  "listLoop L dec secs (tw, w) =
     (tw @ fst (renderAll L (decoded dec secs) w),
      w\<lparr>errW := errW w @ map (\<lambda>e. Fprintf ''%v'' [E e]) (decodeErrors dec secs),
        ticks := ticks w + length (filter (\<lambda>t. Expires t \<noteq> None) (decoded dec secs))\<rparr>)"
proof (induction secs arbitrary: tw w)
  case Nil
  show ?case by (simp add: decoded_Nil decodeErrors_Nil)
next
  case (Cons s secs)
  show ?case
  proof (cases "dec s")
    case (Inl e)
    have "fst (renderAll L (decoded dec secs) (w\<lparr>errW := errW w @ [Fprintf ''%v'' [E e]]\<rparr>))
        = fst (renderAll L (decoded dec secs) w)"
      by (rule renderAll_fst_cong) simp_all
    with Inl show ?thesis
      by (simp add: Cons.IH decoded_Cons decodeErrors_Cons)
  next
    case (Inr t)
    then show ?thesis
      by (simp add: Cons.IH decoded_Cons decodeErrors_Cons split_beta hr_snd
          split: option.split)
  qed
qed

lemma RunListTokens_ok:
  assumes "Secrets_List client NamespaceSystem [(''type'', SecretTypeBootstrapToken)] (store w)
             = (Inr secrets, s')"
  shows "RunListTokens L dec client w =
     (None, w
        \<lparr>out := out w @ [Tabwriter (header # fst (renderAll L (decoded dec secrets) w))],
         errW := errW w @ map (\<lambda>e. Fprintf ''%v'' [E e]) (decodeErrors dec secrets),
         calls := calls w @ [ListCall NamespaceSystem [(''type'', SecretTypeBootstrapToken)]],
         store := s',
         ticks := ticks w + length (filter (\<lambda>t. Expires t \<noteq> None) (decoded dec secrets))\<rparr>)"
proof -
  let ?w1 = "w\<lparr>calls := calls w @ [ListCall NamespaceSystem [(''type'', SecretTypeBootstrapToken)]],
                store := s'\<rparr>"
  have "fst (renderAll L (decoded dec secrets) ?w1) = fst (renderAll L (decoded dec secrets) w)"
    by (rule renderAll_fst_cong) simp_all
  with assms show ?thesis
    by (simp add: RunListTokens_def call_List_def listLoop_eq)
qed

lemma cells_no_tab: "CHR 0x09 \<notin> set a \<Longrightarrow> cells a = [a]"
  by (induction a) auto

lemma cells_field: "CHR 0x09 \<notin> set a \<Longrightarrow> cells (a @ CHR 0x09 # b) = a # cells b"
  by (induction a) (auto split: list.split)

lemma cells_Join_sep:
  "sep = [CHR 0x09] \<Longrightarrow> fs \<noteq> [] \<Longrightarrow> \<forall>f \<in> set fs. CHR 0x09 \<notin> set f \<Longrightarrow>
     cells (strings_Join fs sep) = fs"
proof (induction fs sep rule: strings_Join.induct)
  case (1 sep)
  then show ?case by simp
next
  case (2 a sep)
  then show ?case by (simp add: cells_no_tab)
next
  case (3 a b rest sep)
  then show ?case by (simp add: cells_field)
qed

lemma cells_Join:
  "fs \<noteq> [] \<Longrightarrow> \<forall>f \<in> set fs. CHR 0x09 \<notin> set f \<Longrightarrow> cells (strings_Join fs tab) = fs"
  by (rule cells_Join_sep) (simp_all add: tab_def)

lemma hr_fst_Join:
  "fst (humanReadableBootstrapToken L t w) =
     strings_Join
       [String (Token t),
        (case Expires t of None \<Rightarrow> ''<forever>''
         | Some e \<Rightarrow> ShortHumanDuration L (Sub L e (clock w (ticks w)))),
        (case Expires t of None \<Rightarrow> ''<never>'' | Some e \<Rightarrow> Format_RFC3339 L e),
        orNone (strings_Join (Usages t) '',''),
        orNone (Description t),
        orNone (strings_Join (Groups t) '','')] tab"
  by (simp add: hr_fst)

section \<open>Facts about the deletion loop\<close>

lemma RunDeleteTokens_invalid:
  "tokenIDOf x = None \<Longrightarrow> RunDeleteTokens c (x # rest) w = (Some (invalidFormat x), w)"
  by (simp add: tokenIDOf_def invalidFormat_def split: if_splits sum.splits)

lemma RunDeleteTokens_valid:
  "tokenIDOf x = Some i \<Longrightarrow>
     RunDeleteTokens c (x # rest) w =
       (case call_Delete c NamespaceSystem (BootstrapTokenSecretName i) w of
          (Some err, w1) \<Rightarrow> (Some (Wrapf err ''failed to delete bootstrap token %q'' [i]), w1)
        | (None, w1) \<Rightarrow> RunDeleteTokens c rest (w1\<lparr>out := out w1 @ [deletedLine i]\<rparr>))"
  by (auto simp: tokenIDOf_def deletedLine_def split: if_splits sum.splits prod.splits option.splits)

declare RunDeleteTokens.simps(2) [simp del]

lemma call_Delete_frame:
  "call_Delete c ns name w = (r, w1) \<Longrightarrow>
     out w1 = out w \<and> errW w1 = errW w \<and> calls w1 = calls w @ [DeleteCall ns name]
       \<and> clock w1 = clock w \<and> ticks w1 = ticks w"
  by (auto simp: call_Delete_def split: prod.splits)

lemma RunDeleteTokens_append:
  "RunDeleteTokens c (xs @ ys) w =
     (case RunDeleteTokens c xs w of
        (None, w1) \<Rightarrow> RunDeleteTokens c ys w1
      | (Some e, w1) \<Rightarrow> (Some e, w1))"
proof (induction xs arbitrary: w)
  case Nil
  show ?case by simp
next
  case (Cons x xs)
  show ?case
  proof (cases "tokenIDOf x")
    case None
    then show ?thesis
      by (simp add: RunDeleteTokens_invalid)
  next
    case (Some i)
    then show ?thesis
      by (simp add: RunDeleteTokens_valid Cons.IH split: prod.split option.split)
  qed
qed

lemma RunDeleteTokens_success:
  "RunDeleteTokens c xs w = (None, w1) \<Longrightarrow>
     length (List.map_filter tokenIDOf xs) = length xs
     \<and> out w1 = out w @ map deletedLine (List.map_filter tokenIDOf xs)
     \<and> calls w1 = calls w @ map deleteCallFor (List.map_filter tokenIDOf xs)"
proof (induction xs arbitrary: w)
  case Nil
  then show ?case by simp
next
  case (Cons x xs)
  show ?case
  proof (cases "tokenIDOf x")
    case None
    with Cons.prems show ?thesis
      by (simp add: RunDeleteTokens_invalid)
  next
    case (Some i)
    obtain r w' where cd: "call_Delete c NamespaceSystem (BootstrapTokenSecretName i) w = (r, w')"
      by (cases "call_Delete c NamespaceSystem (BootstrapTokenSecretName i) w")
    with Cons.prems Some have r: "r = None"
      and run: "RunDeleteTokens c xs (w'\<lparr>out := out w' @ [deletedLine i]\<rparr>) = (None, w1)"
      by (auto simp: RunDeleteTokens_valid split: option.splits)
    from Cons.IH [OF run] call_Delete_frame [OF cd] Some show ?thesis
      by (simp add: deleteCallFor_def)
  qed
qed

lemma RunDeleteTokens_single_failure:
  "RunDeleteTokens c [x] w = (Some e, w1) \<Longrightarrow>
     out w1 = out w
     \<and> calls w1 = calls w @ (case tokenIDOf x of None \<Rightarrow> [] | Some i \<Rightarrow> [deleteCallFor i])
     \<and> (tokenIDOf x = None \<longrightarrow> e = invalidFormat x)
     \<and> (\<forall>i. tokenIDOf x = Some i \<longrightarrow>
           (\<exists>err. e = Wrapf err ''failed to delete bootstrap token %q'' [i]))"
proof (cases "tokenIDOf x")
  case None
  assume "RunDeleteTokens c [x] w = (Some e, w1)"
  with None show ?thesis
    by (simp add: RunDeleteTokens_invalid)
next
  case (Some i)
  assume a: "RunDeleteTokens c [x] w = (Some e, w1)"
  obtain r w' where cd: "call_Delete c NamespaceSystem (BootstrapTokenSecretName i) w = (r, w')"
    by (cases "call_Delete c NamespaceSystem (BootstrapTokenSecretName i) w")
  with a Some call_Delete_frame [OF cd] show ?thesis
    by (auto simp: RunDeleteTokens_valid deleteCallFor_def split: option.splits)
qed

lemma world_update_order:
  "w\<lparr>calls := a, store := b, out := c\<rparr> = w\<lparr>out := c, calls := a, store := b\<rparr>"
  by (cases w) simp

lemma RunDeleteTokens_deleteEach:
  "deleteEach c xs (store w) = Some s1 \<Longrightarrow>
     RunDeleteTokens c xs w =
       (None, w\<lparr>out := out w @ map deletedLine (List.map_filter tokenIDOf xs),
                calls := calls w @ map deleteCallFor (List.map_filter tokenIDOf xs),
                store := s1\<rparr>)"
proof (induction xs arbitrary: w)
  case Nil
  then show ?case by simp
next
  case (Cons x xs)
  from Cons.prems obtain i where ti: "tokenIDOf x = Some i"
    by (cases "tokenIDOf x") simp_all
  from Cons.prems ti obtain s' where
    d: "Secrets_Delete c NamespaceSystem (BootstrapTokenSecretName i) (store w) = (None, s')"
    and rest: "deleteEach c xs s' = Some s1"
    by (cases "Secrets_Delete c NamespaceSystem (BootstrapTokenSecretName i) (store w)")
      (auto split: option.splits)
  let ?w' = "w\<lparr>out := out w @ [deletedLine i],
               calls := calls w @ [DeleteCall NamespaceSystem (BootstrapTokenSecretName i)],
               store := s'\<rparr>"
  have "deleteEach c xs (store ?w') = Some s1"
    using rest by simp
  from Cons.IH [OF this] ti d show ?case
    by (simp add: RunDeleteTokens_valid call_Delete_def deleteCallFor_def world_update_order)
qed

lemma RunDeleteTokens_nil_iff:
  "(fst (RunDeleteTokens c xs w) = None) = (deleteEach c xs (store w) \<noteq> None)"
proof (induction xs arbitrary: w)
  case Nil
  show ?case by simp
next
  case (Cons x xs)
  show ?case
  proof (cases "tokenIDOf x")
    case None
    then show ?thesis by (simp add: RunDeleteTokens_invalid)
  next
    case (Some i)
    obtain r s' where
      d: "Secrets_Delete c NamespaceSystem (BootstrapTokenSecretName i) (store w) = (r, s')"
      by (cases "Secrets_Delete c NamespaceSystem (BootstrapTokenSecretName i) (store w)")
    show ?thesis
    proof (cases r)
      case None
      with Some d show ?thesis
        by (simp add: RunDeleteTokens_valid call_Delete_def Cons.IH)
    next
      case (Some err)
      with \<open>tokenIDOf x = Some i\<close> d show ?thesis
        by (simp add: RunDeleteTokens_valid call_Delete_def)
    qed
  qed
qed

lemma parse_not_valid_ID:
  "NewBootstrapTokenString tok = Inr bts \<Longrightarrow> \<not> IsValidBootstrapTokenID tok"
  by (auto simp: NewBootstrapTokenString_def IsValidBootstrapTokenID_def split: if_splits)

section \<open>The claims\<close>

lemmas helper_defs =
  IsValidBootstrapTokenID_def isTokenChar_def NewBootstrapTokenString_def String_def
  BootstrapTokenSecretName_def NamespaceSystem_def SecretTypeBootstrapToken_def
  BootstrapTokenIDPattern_def BootstrapTokenPattern_def tab_def newline_def

lemmas example_defs =
  memClient_def forbiddenClient_def exampleDecode_def exampleLib_def exampleWorld_def goodSecret_def
  corruptedSecret_def exampleToken_def

text \<open>
  C6. A token with no \<open>Expires\<close>, an empty description, no usages and no groups is rendered
  with \<open><forever>\<close> in the TTL field, \<open><never>\<close> in the EXPIRES field and \<open><none>\<close> in each
  of the USAGES, DESCRIPTION and GROUPS fields; the clock is not read.
\<close>

theorem humanReadableBootstrapToken_unset_fields:
  assumes "Expires token = None" and "Description token = []"
    and "Usages token = []" and "Groups token = []"
  shows "humanReadableBootstrapToken L token w =
     (String (Token token) @ tab @ ''<forever>'' @ tab @ ''<never>'' @ tab @ ''<none>'' @ tab
        @ ''<none>'' @ tab @ ''<none>'', w)"
  using assms by (simp add: humanReadableBootstrapToken_def)

theorem humanReadableBootstrapToken_unset_fields_witness:
  "Expires exampleToken = None \<and> Description exampleToken = [] \<and> Usages exampleToken = []
   \<and> Groups exampleToken = []
   \<and> fst (humanReadableBootstrapToken exampleLib exampleToken (exampleWorld [])) =
       ''abcdef.0123456789abcdef'' @ tab @ ''<forever>'' @ tab @ ''<never>'' @ tab @ ''<none>''
         @ tab @ ''<none>'' @ tab @ ''<none>''"
proof -
  have h: "Expires exampleToken = None" "Description exampleToken = []"
    "Usages exampleToken = []" "Groups exampleToken = []"
    by (simp_all add: exampleToken_def)
  from humanReadableBootstrapToken_unset_fields [OF h, of exampleLib "exampleWorld []"] h
  show ?thesis
    by (simp add: exampleToken_def String_def)
qed

text \<open>
  C8. For a token whose \<open>Expires\<close> is set, the TTL field is the short human duration of
  \<open>Expires\<close> minus the reading of the clock taken by this very call, and the EXPIRES field
  is the RFC3339 form of \<open>Expires\<close>. Every call takes a reading of its own: a second call
  on the same token uses the next reading of the clock, nothing is kept from the first.
\<close>

theorem humanReadableBootstrapToken_ttl_from_call_time:
  assumes "Expires token = Some e"
  shows "fst (humanReadableBootstrapToken L token w) =
       String (Token token) @ tab @ ShortHumanDuration L (Sub L e (clock w (ticks w))) @ tab
         @ Format_RFC3339 L e @ tab @ orNone (strings_Join (Usages token) '','') @ tab
         @ orNone (Description token) @ tab @ orNone (strings_Join (Groups token) '','')
     \<and> snd (humanReadableBootstrapToken L token w) = w\<lparr>ticks := Suc (ticks w)\<rparr>
     \<and> fst (humanReadableBootstrapToken L token (snd (humanReadableBootstrapToken L token w))) =
       String (Token token) @ tab @ ShortHumanDuration L (Sub L e (clock w (Suc (ticks w)))) @ tab
         @ Format_RFC3339 L e @ tab @ orNone (strings_Join (Usages token) '','') @ tab
         @ orNone (Description token) @ tab @ orNone (strings_Join (Groups token) '','')"
  using assms by (simp add: hr_fst hr_snd)

theorem humanReadableBootstrapToken_ttl_from_call_time_witness:
  "Expires (exampleToken\<lparr>Expires := Some 3\<rparr>) = Some 3
   \<and> fst (humanReadableBootstrapToken exampleLib (exampleToken\<lparr>Expires := Some 3\<rparr>)
          (exampleWorld [])) =
       ''abcdef.0123456789abcdef'' @ tab @ ''sss'' @ tab @ ''TTT'' @ tab @ ''<none>'' @ tab
         @ ''<none>'' @ tab @ ''<none>''
   \<and> fst (humanReadableBootstrapToken exampleLib (exampleToken\<lparr>Expires := Some 3\<rparr>)
          (snd (humanReadableBootstrapToken exampleLib (exampleToken\<lparr>Expires := Some 3\<rparr>)
             (exampleWorld [])))) =
       ''abcdef.0123456789abcdef'' @ tab @ ''ss'' @ tab @ ''TTT'' @ tab @ ''<none>'' @ tab
         @ ''<none>'' @ tab @ ''<none>''"
proof -
  have h: "Expires (exampleToken\<lparr>Expires := Some 3\<rparr>) = Some 3"
    by simp
  have r: "replicate 3 (CHR ''s'') = ''sss''" "replicate 2 (CHR ''s'') = ''ss''"
    "replicate 3 (CHR ''T'') = ''TTT''"
    by (simp_all add: numeral_3_eq_3 numeral_2_eq_2)
  from humanReadableBootstrapToken_ttl_from_call_time [OF h, of exampleLib "exampleWorld []"]
  show ?thesis
    by (simp add: hr_fst hr_snd exampleToken_def exampleLib_def exampleWorld_def String_def
        orNone_def r)
qed

text \<open>
  C1. The spec has the listing never display a token's Secret, so that the line of a token
  would not depend on it. It does: the TOKEN field is \<open>token.Token.String()\<close>, the full
  token string, and two tokens that differ only in the Secret are rendered differently.
\<close>

theorem listing_line_shows_the_Secret:
  "fst (humanReadableBootstrapToken exampleLib
          (exampleToken\<lparr>Token := \<lparr>ID = ''abcdef'', Secret = ''0123456789abcdef''\<rparr>\<rparr>)
          (exampleWorld []))
   \<noteq> fst (humanReadableBootstrapToken exampleLib
          (exampleToken\<lparr>Token := \<lparr>ID = ''abcdef'', Secret = ''fedcba9876543210''\<rparr>\<rparr>)
          (exampleWorld []))"
  by (simp add: hr_fst String_def)

text \<open>
  C1, as the code has it. For two tokens that differ only in the Secret, the lines begin
  with the two full token strings \<open><ID>.<Secret>\<close> and continue with the same text: the
  TTL, EXPIRES, USAGES, DESCRIPTION and EXTRA GROUPS fields do not depend on the Secret.
\<close>

theorem listing_line_Secret_only_in_TOKEN_field:
  assumes "ID (Token t1) = ID (Token t2)" and "Expires t1 = Expires t2"
    and "Usages t1 = Usages t2" and "Groups t1 = Groups t2"
    and "Description t1 = Description t2"
  shows "\<exists>rest.
       fst (humanReadableBootstrapToken L t1 w) =
         ID (Token t1) @ ''.'' @ Secret (Token t1) @ tab @ rest
     \<and> fst (humanReadableBootstrapToken L t2 w) =
         ID (Token t1) @ ''.'' @ Secret (Token t2) @ tab @ rest"
  using assms by (simp add: hr_fst String_def)

theorem listing_line_Secret_only_in_TOKEN_field_witness:
  "ID (Token exampleToken) = ID (Token (exampleToken\<lparr>Token := \<lparr>ID = ''abcdef'', Secret = ''fedcba9876543210''\<rparr>\<rparr>))
   \<and> (\<exists>rest.
       fst (humanReadableBootstrapToken exampleLib exampleToken (exampleWorld [])) =
         ''abcdef.0123456789abcdef'' @ tab @ rest
     \<and> fst (humanReadableBootstrapToken exampleLib
            (exampleToken\<lparr>Token := \<lparr>ID = ''abcdef'', Secret = ''fedcba9876543210''\<rparr>\<rparr>)
            (exampleWorld [])) =
         ''abcdef.fedcba9876543210'' @ tab @ rest)"
proof -
  let ?t2 = "exampleToken\<lparr>Token := \<lparr>ID = ''abcdef'', Secret = ''fedcba9876543210''\<rparr>\<rparr>"
  have h: "ID (Token exampleToken) = ID (Token ?t2)" "Expires exampleToken = Expires ?t2"
    "Usages exampleToken = Usages ?t2" "Groups exampleToken = Groups ?t2"
    "Description exampleToken = Description ?t2"
    by (simp_all add: exampleToken_def)
  have s: "ID (Token exampleToken) = ''abcdef''" "Secret (Token exampleToken) = ''0123456789abcdef''"
    "Secret (Token ?t2) = ''fedcba9876543210''"
    by (simp_all add: exampleToken_def)
  from listing_line_Secret_only_in_TOKEN_field [OF h, of exampleLib "exampleWorld []"] h(1) show ?thesis
    unfolding s by simp
qed

text \<open>
  C2. The spec has the later items of a batch processed after an item fails. They are
  not: on \<open>["bad-format", "abcdef"]\<close>, over a store that holds the record of \<open>abcdef\<close>, the
  call returns the format error of the first input, issues no delete, reports nothing, and
  leaves the record in the store, though \<open>abcdef\<close> alone is deleted.
\<close>

theorem RunDeleteTokens_does_not_continue_after_failure:
  "fst (RunDeleteTokens memClient [''bad-format'', ''abcdef''] (exampleWorld [goodSecret]))
     = Some (invalidFormat ''bad-format'')
   \<and> calls (snd (RunDeleteTokens memClient [''bad-format'', ''abcdef'']
        (exampleWorld [goodSecret]))) = []
   \<and> out (snd (RunDeleteTokens memClient [''bad-format'', ''abcdef'']
        (exampleWorld [goodSecret]))) = []
   \<and> store (snd (RunDeleteTokens memClient [''bad-format'', ''abcdef'']
        (exampleWorld [goodSecret]))) = [goodSecret]
   \<and> fst (RunDeleteTokens memClient [''abcdef''] (exampleWorld [goodSecret])) = None
   \<and> store (snd (RunDeleteTokens memClient [''abcdef''] (exampleWorld [goodSecret]))) = []"
  by (simp add: RunDeleteTokens.simps(2) call_Delete_def invalidFormat_def helper_defs example_defs)

text \<open>
  C2, as the code has it. \<open>RunDeleteTokens\<close> takes the inputs in order and stops at the first
  one that fails. Let every input of \<open>pre\<close> be well-formed and deleted by the store without
  error, the store left in state \<open>s1\<close>: then each of them has been deleted and reported, in
  order. If the next input \<open>x\<close> is malformed, the call returns its format error, with no
  further call to the store; if the store's delete of \<open>x\<close> returns an error, whichever it is,
  the call returns that very error wrapped with the token ID. Either way nothing is
  reported for \<open>x\<close> and the inputs \<open>post\<close> after it are not processed. If the delete of \<open>x\<close>
  succeeds, it is reported and the loop goes on with \<open>post\<close>. The call returns \<open>nil\<close> exactly
  when every input is well-formed and every delete succeeds.
\<close>

theorem RunDeleteTokens_stops_at_first_failure:
  assumes "deleteEach c pre (store w) = Some s1"
  shows "RunDeleteTokens c pre w =
       (None, w\<lparr>out := out w @ map deletedLine (List.map_filter tokenIDOf pre),
                calls := calls w @ map deleteCallFor (List.map_filter tokenIDOf pre),
                store := s1\<rparr>)
     \<and> length (List.map_filter tokenIDOf pre) = length pre
     \<and> (tokenIDOf x = None \<longrightarrow>
          RunDeleteTokens c (pre @ x # post) w =
            (Some (invalidFormat x),
             w\<lparr>out := out w @ map deletedLine (List.map_filter tokenIDOf pre),
               calls := calls w @ map deleteCallFor (List.map_filter tokenIDOf pre),
               store := s1\<rparr>))
     \<and> (\<forall>i err s'. tokenIDOf x = Some i
            \<and> Secrets_Delete c NamespaceSystem (BootstrapTokenSecretName i) s1 = (Some err, s') \<longrightarrow>
          RunDeleteTokens c (pre @ x # post) w =
            (Some (Wrapf err ''failed to delete bootstrap token %q'' [i]),
             w\<lparr>out := out w @ map deletedLine (List.map_filter tokenIDOf pre),
               calls := calls w @ map deleteCallFor (List.map_filter tokenIDOf pre)
                          @ [deleteCallFor i],
               store := s'\<rparr>))
     \<and> (\<forall>i s'. tokenIDOf x = Some i
            \<and> Secrets_Delete c NamespaceSystem (BootstrapTokenSecretName i) s1 = (None, s') \<longrightarrow>
          RunDeleteTokens c (pre @ x # post) w =
            RunDeleteTokens c post
              (w\<lparr>out := out w @ map deletedLine (List.map_filter tokenIDOf pre) @ [deletedLine i],
                 calls := calls w @ map deleteCallFor (List.map_filter tokenIDOf pre)
                            @ [deleteCallFor i],
                 store := s'\<rparr>))
     \<and> (fst (RunDeleteTokens c (pre @ x # post) w) = None) =
         (deleteEach c (pre @ x # post) (store w) \<noteq> None)"
proof -
  let ?w1 = "w\<lparr>out := out w @ map deletedLine (List.map_filter tokenIDOf pre),
               calls := calls w @ map deleteCallFor (List.map_filter tokenIDOf pre),
               store := s1\<rparr>"
  have p: "RunDeleteTokens c pre w = (None, ?w1)"
    using assms by (rule RunDeleteTokens_deleteEach)
  have len: "length (List.map_filter tokenIDOf pre) = length pre"
    using RunDeleteTokens_success [OF p] by simp
  have app: "RunDeleteTokens c (pre @ x # post) w = RunDeleteTokens c (x # post) ?w1"
    using RunDeleteTokens_append [of c pre "x # post" w] p by simp
  have a: "tokenIDOf x = None \<longrightarrow>
      RunDeleteTokens c (pre @ x # post) w = (Some (invalidFormat x), ?w1)"
    by (simp add: app RunDeleteTokens_invalid)
  have b: "\<forall>i err s'. tokenIDOf x = Some i
            \<and> Secrets_Delete c NamespaceSystem (BootstrapTokenSecretName i) s1 = (Some err, s') \<longrightarrow>
          RunDeleteTokens c (pre @ x # post) w =
            (Some (Wrapf err ''failed to delete bootstrap token %q'' [i]),
             w\<lparr>out := out w @ map deletedLine (List.map_filter tokenIDOf pre),
               calls := calls w @ map deleteCallFor (List.map_filter tokenIDOf pre)
                          @ [deleteCallFor i],
               store := s'\<rparr>)"
    by (simp add: app RunDeleteTokens_valid call_Delete_def deleteCallFor_def)
  have d: "\<forall>i s'. tokenIDOf x = Some i
            \<and> Secrets_Delete c NamespaceSystem (BootstrapTokenSecretName i) s1 = (None, s') \<longrightarrow>
          RunDeleteTokens c (pre @ x # post) w =
            RunDeleteTokens c post
              (w\<lparr>out := out w @ map deletedLine (List.map_filter tokenIDOf pre) @ [deletedLine i],
                 calls := calls w @ map deleteCallFor (List.map_filter tokenIDOf pre)
                            @ [deleteCallFor i],
                 store := s'\<rparr>)"
    by (simp add: app RunDeleteTokens_valid call_Delete_def deleteCallFor_def world_update_order)
  from p len a b d RunDeleteTokens_nil_iff [of c "pre @ x # post" w] show ?thesis
    by blast
qed

theorem RunDeleteTokens_stops_at_first_failure_witness:
  "deleteEach memClient [''abcdef''] (store (exampleWorld [goodSecret])) = Some []
   \<and> fst (RunDeleteTokens memClient [''abcdef'', ''abcdef'', ''bad-format'']
        (exampleWorld [goodSecret]))
       = Some (Wrapf (ErrorString ''NotFound'') ''failed to delete bootstrap token %q'' [''abcdef''])
   \<and> out (snd (RunDeleteTokens memClient [''abcdef'', ''abcdef'', ''bad-format'']
        (exampleWorld [goodSecret]))) = [deletedLine ''abcdef'']
   \<and> calls (snd (RunDeleteTokens memClient [''abcdef'', ''abcdef'', ''bad-format'']
        (exampleWorld [goodSecret]))) = [deleteCallFor ''abcdef'', deleteCallFor ''abcdef'']
   \<and> deleteEach forbiddenClient [] (store (exampleWorld [goodSecret])) = Some [goodSecret]
   \<and> fst (RunDeleteTokens forbiddenClient [''abcdef'', ''ghijkl''] (exampleWorld [goodSecret]))
       = Some (Wrapf (ErrorString ''Forbidden'') ''failed to delete bootstrap token %q'' [''abcdef''])
   \<and> calls (snd (RunDeleteTokens forbiddenClient [''abcdef'', ''ghijkl'']
        (exampleWorld [goodSecret]))) = [deleteCallFor ''abcdef'']"
proof -
  let ?w = "exampleWorld [goodSecret]"
  have t: "tokenIDOf ''abcdef'' = Some ''abcdef''"
    by (simp add: tokenIDOf_def IsValidBootstrapTokenID_def isTokenChar_def)
  have h: "deleteEach memClient [''abcdef''] (store ?w) = Some []"
    by (simp add: t memClient_def exampleWorld_def goodSecret_def BootstrapTokenSecretName_def)
  have d: "Secrets_Delete memClient NamespaceSystem (BootstrapTokenSecretName ''abcdef'') []
      = (Some (ErrorString ''NotFound''), [])"
    by (simp add: memClient_def)
  have h': "deleteEach forbiddenClient [] (store ?w) = Some [goodSecret]"
    by (simp add: exampleWorld_def)
  have d': "Secrets_Delete forbiddenClient NamespaceSystem (BootstrapTokenSecretName ''abcdef'')
      [goodSecret] = (Some (ErrorString ''Forbidden''), [goodSecret])"
    by (simp add: forbiddenClient_def)
  have w0: "out ?w = []" "calls ?w = []"
    by (simp_all add: exampleWorld_def)
  from RunDeleteTokens_stops_at_first_failure [OF h, of "''abcdef''" "[''bad-format'']"] t d
  have r: "RunDeleteTokens memClient ([''abcdef''] @ ''abcdef'' # [''bad-format'']) ?w =
      (Some (Wrapf (ErrorString ''NotFound'') ''failed to delete bootstrap token %q'' [''abcdef'']),
       ?w\<lparr>out := out ?w @ map deletedLine (List.map_filter tokenIDOf [''abcdef'']),
          calls := calls ?w @ map deleteCallFor (List.map_filter tokenIDOf [''abcdef''])
                     @ [deleteCallFor ''abcdef''],
          store := []\<rparr>)"
    by blast
  from RunDeleteTokens_stops_at_first_failure [OF h', of "''abcdef''" "[''ghijkl'']"] t d'
  have r': "RunDeleteTokens forbiddenClient ([] @ ''abcdef'' # [''ghijkl'']) ?w =
      (Some (Wrapf (ErrorString ''Forbidden'') ''failed to delete bootstrap token %q'' [''abcdef'']),
       ?w\<lparr>out := out ?w @ map deletedLine (List.map_filter tokenIDOf []),
          calls := calls ?w @ map deleteCallFor (List.map_filter tokenIDOf [])
                     @ [deleteCallFor ''abcdef''],
          store := [goodSecret]\<rparr>)"
    by blast
  from r r' h h' show ?thesis
    by (simp add: t w0)
qed

text \<open>
  C3. When the list call succeeds, every returned record is decoded on its own: the records
  that decode are rendered, all of them and in order, after the header; the error of each
  record that does not decode is written to \<open>errW\<close> and the record is skipped. Over one
  well-formed and one corrupted record the listing has one row and one reported error.
\<close>

theorem RunListTokens_decodes_each_record_independently:
  assumes "Secrets_List client NamespaceSystem [(''type'', SecretTypeBootstrapToken)] (store w)
             = (Inr secrets, s')"
  shows "fst (RunListTokens L dec client w) = None
     \<and> out (snd (RunListTokens L dec client w)) =
         out w @ [Tabwriter (header # fst (renderAll L (decoded dec secrets) w))]
     \<and> length (fst (renderAll L (decoded dec secrets) w)) = length (decoded dec secrets)
     \<and> errW (snd (RunListTokens L dec client w)) =
         errW w @ map (\<lambda>e. Fprintf ''%v'' [E e]) (decodeErrors dec secrets)
     \<and> (\<forall>good bad t e. secrets = [good, bad] \<and> dec good = Inr t \<and> dec bad = Inl e \<longrightarrow>
           out (snd (RunListTokens L dec client w)) =
             out w @ [Tabwriter [header, fst (humanReadableBootstrapToken L t w)]]
         \<and> errW (snd (RunListTokens L dec client w)) = errW w @ [Fprintf ''%v'' [E e]])"
  by (simp add: RunListTokens_ok [OF assms] renderAll_length decoded_Cons decodeErrors_Cons
      decoded_Nil decodeErrors_Nil split_beta)

theorem RunListTokens_decodes_each_record_independently_witness:
  "Secrets_List memClient NamespaceSystem [(''type'', SecretTypeBootstrapToken)]
       (store (exampleWorld [goodSecret, corruptedSecret]))
     = (Inr [goodSecret, corruptedSecret], [goodSecret, corruptedSecret])
   \<and> exampleDecode goodSecret = Inr exampleToken
   \<and> exampleDecode corruptedSecret = Inl (ErrorString ''MalformedRecord'')
   \<and> fst (RunListTokens exampleLib exampleDecode memClient
        (exampleWorld [goodSecret, corruptedSecret])) = None
   \<and> out (snd (RunListTokens exampleLib exampleDecode memClient
        (exampleWorld [goodSecret, corruptedSecret]))) =
       [Tabwriter [header,
          ''abcdef.0123456789abcdef'' @ tab @ ''<forever>'' @ tab @ ''<never>'' @ tab @ ''<none>''
            @ tab @ ''<none>'' @ tab @ ''<none>'']]
   \<and> errW (snd (RunListTokens exampleLib exampleDecode memClient
        (exampleWorld [goodSecret, corruptedSecret]))) =
       [Fprintf ''%v'' [E (ErrorString ''MalformedRecord'')]]"
proof -
  let ?w = "exampleWorld [goodSecret, corruptedSecret]"
  have h: "Secrets_List memClient NamespaceSystem [(''type'', SecretTypeBootstrapToken)] (store ?w)
     = (Inr [goodSecret, corruptedSecret], [goodSecret, corruptedSecret])"
    by (simp add: memClient_def exampleWorld_def goodSecret_def corruptedSecret_def)
  have d: "exampleDecode goodSecret = Inr exampleToken"
    "exampleDecode corruptedSecret = Inl (ErrorString ''MalformedRecord'')"
    by (simp_all add: exampleDecode_def goodSecret_def corruptedSecret_def exampleToken_def
        NewBootstrapTokenString_def isTokenChar_def)
  have w0: "out ?w = []" "errW ?w = []"
    by (simp_all add: exampleWorld_def)
  have row: "fst (humanReadableBootstrapToken exampleLib exampleToken ?w) =
      ''abcdef.0123456789abcdef'' @ tab @ ''<forever>'' @ tab @ ''<never>'' @ tab @ ''<none>''
        @ tab @ ''<none>'' @ tab @ ''<none>''"
    by (simp add: hr_fst exampleToken_def String_def orNone_def)
  note inst = RunListTokens_decodes_each_record_independently [OF h, of exampleLib exampleDecode]
  from inst [THEN conjunct1]
  have 1: "fst (RunListTokens exampleLib exampleDecode memClient ?w) = None" .
  from inst [THEN conjunct2, THEN conjunct2, THEN conjunct2, THEN conjunct2] d
  have 2: "out (snd (RunListTokens exampleLib exampleDecode memClient ?w)) =
        out ?w @ [Tabwriter [header, fst (humanReadableBootstrapToken exampleLib exampleToken ?w)]]
      \<and> errW (snd (RunListTokens exampleLib exampleDecode memClient ?w)) =
        errW ?w @ [Fprintf ''%v'' [E (ErrorString ''MalformedRecord'')]]"
    by blast
  from h d 1 2 show ?thesis
    unfolding row w0 by simp
qed

text \<open>
  C4. Deleting a valid bare ID and deleting a full token whose ID part is that ID are the
  same run: both issue the delete against \<open>bootstrap-token-<ID>\<close> in the system namespace.
  An input that is neither a valid ID nor a full token yields the format error.
\<close>

theorem RunDeleteTokens_ID_and_full_token_same_record:
  assumes "IsValidBootstrapTokenID i" and "NewBootstrapTokenString tok = Inr bts"
    and "ID bts = i"
  shows "RunDeleteTokens c [tok] w = RunDeleteTokens c [i] w
     \<and> calls (snd (RunDeleteTokens c [i] w)) =
         calls w @ [DeleteCall NamespaceSystem (''bootstrap-token-'' @ i)]
     \<and> (\<forall>x. \<not> IsValidBootstrapTokenID x \<and> isl (NewBootstrapTokenString x) \<longrightarrow>
           RunDeleteTokens c [x] w = (Some (invalidFormat x), w))"
proof -
  have ti: "tokenIDOf i = Some i"
    using assms(1) by (simp add: tokenIDOf_def)
  have tt: "tokenIDOf tok = Some i"
    using parse_not_valid_ID [OF assms(2)] assms(2,3) by (simp add: tokenIDOf_def)
  have same: "RunDeleteTokens c [tok] w = RunDeleteTokens c [i] w"
    by (simp add: RunDeleteTokens_valid [OF ti] RunDeleteTokens_valid [OF tt])
  obtain r w' where cd: "call_Delete c NamespaceSystem (BootstrapTokenSecretName i) w = (r, w')"
    by (cases "call_Delete c NamespaceSystem (BootstrapTokenSecretName i) w")
  from call_Delete_frame [OF cd] cd
  have cs: "calls (snd (RunDeleteTokens c [i] w)) =
      calls w @ [DeleteCall NamespaceSystem (''bootstrap-token-'' @ i)]"
    by (cases r) (simp_all add: RunDeleteTokens_valid [OF ti] BootstrapTokenSecretName_def)
  have inv: "\<forall>x. \<not> IsValidBootstrapTokenID x \<and> isl (NewBootstrapTokenString x) \<longrightarrow>
      RunDeleteTokens c [x] w = (Some (invalidFormat x), w)"
  proof (intro allI impI)
    fix x
    assume "\<not> IsValidBootstrapTokenID x \<and> isl (NewBootstrapTokenString x)"
    then have "tokenIDOf x = None"
      by (auto simp: tokenIDOf_def isl_def)
    then show "RunDeleteTokens c [x] w = (Some (invalidFormat x), w)"
      by (rule RunDeleteTokens_invalid)
  qed
  from same cs inv show ?thesis by blast
qed

theorem RunDeleteTokens_ID_and_full_token_same_record_witness:
  "IsValidBootstrapTokenID ''abcdef''
   \<and> NewBootstrapTokenString ''abcdef.0123456789abcdef''
       = Inr \<lparr>ID = ''abcdef'', Secret = ''0123456789abcdef''\<rparr>
   \<and> RunDeleteTokens memClient [''abcdef.0123456789abcdef''] (exampleWorld [goodSecret])
       = RunDeleteTokens memClient [''abcdef''] (exampleWorld [goodSecret])
   \<and> calls (snd (RunDeleteTokens memClient [''abcdef.0123456789abcdef'']
        (exampleWorld [goodSecret]))) = [DeleteCall ''kube-system'' ''bootstrap-token-abcdef'']
   \<and> fst (RunDeleteTokens memClient [''bad-format''] (exampleWorld [goodSecret]))
       = Some (invalidFormat ''bad-format'')"
proof -
  have h: "IsValidBootstrapTokenID ''abcdef''"
    "NewBootstrapTokenString ''abcdef.0123456789abcdef''
       = Inr \<lparr>ID = ''abcdef'', Secret = ''0123456789abcdef''\<rparr>"
    "ID \<lparr>ID = ''abcdef'', Secret = ''0123456789abcdef''\<rparr> = ''abcdef''"
    by (simp_all add: IsValidBootstrapTokenID_def NewBootstrapTokenString_def isTokenChar_def)
  have b: "\<not> IsValidBootstrapTokenID ''bad-format'' \<and> isl (NewBootstrapTokenString ''bad-format'')"
    by (simp add: IsValidBootstrapTokenID_def NewBootstrapTokenString_def)
  note t = RunDeleteTokens_ID_and_full_token_same_record [OF h, of memClient "exampleWorld [goodSecret]"]
  from t have 1: "RunDeleteTokens memClient [''abcdef.0123456789abcdef''] (exampleWorld [goodSecret])
       = RunDeleteTokens memClient [''abcdef''] (exampleWorld [goodSecret])"
    by blast
  from t have 2: "calls (snd (RunDeleteTokens memClient [''abcdef''] (exampleWorld [goodSecret])))
       = [DeleteCall ''kube-system'' ''bootstrap-token-abcdef'']"
    by (simp add: exampleWorld_def NamespaceSystem_def)
  from t b have 3: "fst (RunDeleteTokens memClient [''bad-format''] (exampleWorld [goodSecret]))
       = Some (invalidFormat ''bad-format'')"
    by simp
  from h 1 2 3 show ?thesis by simp
qed

text \<open>
  C5. The first line written to the tabwriter is the header, whose cells are \<open>TOKEN\<close>,
  \<open>TTL\<close>, \<open>EXPIRES\<close>, \<open>USAGES\<close>, \<open>DESCRIPTION\<close>, \<open>EXTRA GROUPS\<close>, separated by tabs, in this
  order. Every later line is the row of a decoded token: its token string, TTL, expiry,
  usages, description and groups, separated by tabs, in the order of the header.
\<close>

theorem RunListTokens_header_and_row_columns:
  fixes w :: "('s, 't) world"
  assumes "Secrets_List client NamespaceSystem [(''type'', SecretTypeBootstrapToken)] (store w)
             = (Inr secrets, s')"
  shows "\<exists>rows.
       out (snd (RunListTokens L dec client w)) = out w @ [Tabwriter (header # rows)]
     \<and> header = strings_Join
         [''TOKEN'', ''TTL'', ''EXPIRES'', ''USAGES'', ''DESCRIPTION'', ''EXTRA GROUPS''] tab
     \<and> cells header = [''TOKEN'', ''TTL'', ''EXPIRES'', ''USAGES'', ''DESCRIPTION'', ''EXTRA GROUPS'']
     \<and> (\<forall>r \<in> set rows. \<exists>t \<in> set (decoded dec secrets). \<exists>n.
          let fields =
            [String (Token t),
             (case Expires t of None \<Rightarrow> ''<forever>''
              | Some e \<Rightarrow> ShortHumanDuration L (Sub L e (clock w n))),
             (case Expires t of None \<Rightarrow> ''<never>'' | Some e \<Rightarrow> Format_RFC3339 L e),
             orNone (strings_Join (Usages t) '',''),
             orNone (Description t),
             orNone (strings_Join (Groups t) '','')]
          in r = strings_Join fields tab
             \<and> ((\<forall>f \<in> set fields. CHR 0x09 \<notin> set f) \<longrightarrow> cells r = fields))"
proof -
  let ?rows = "fst (renderAll L (decoded dec secrets) w)"
  have o: "out (snd (RunListTokens L dec client w)) = out w @ [Tabwriter (header # ?rows)]"
    by (simp add: RunListTokens_ok [OF assms])
  have hj: "header = strings_Join
       [''TOKEN'', ''TTL'', ''EXPIRES'', ''USAGES'', ''DESCRIPTION'', ''EXTRA GROUPS''] tab"
    by (simp add: header_def)
  have hc: "cells header =
      [''TOKEN'', ''TTL'', ''EXPIRES'', ''USAGES'', ''DESCRIPTION'', ''EXTRA GROUPS'']"
    unfolding hj by (rule cells_Join) simp_all
  have rs: "\<forall>r \<in> set ?rows. \<exists>t \<in> set (decoded dec secrets). \<exists>n.
          let fields =
            [String (Token t),
             (case Expires t of None \<Rightarrow> ''<forever>''
              | Some e \<Rightarrow> ShortHumanDuration L (Sub L e (clock w n))),
             (case Expires t of None \<Rightarrow> ''<never>'' | Some e \<Rightarrow> Format_RFC3339 L e),
             orNone (strings_Join (Usages t) '',''),
             orNone (Description t),
             orNone (strings_Join (Groups t) '','')]
          in r = strings_Join fields tab
             \<and> ((\<forall>f \<in> set fields. CHR 0x09 \<notin> set f) \<longrightarrow> cells r = fields)"
  proof
    fix r
    assume "r \<in> set ?rows"
    from renderAll_rows_clock [OF this] obtain t and w' :: "('s, 't) world"
      where t: "t \<in> set (decoded dec secrets)" and c: "clock w' = clock w"
        and r: "r = fst (humanReadableBootstrapToken L t w')"
      by blast
    let ?fields = "[String (Token t),
             (case Expires t of None \<Rightarrow> ''<forever>''
              | Some e \<Rightarrow> ShortHumanDuration L (Sub L e (clock w (ticks w')))),
             (case Expires t of None \<Rightarrow> ''<never>'' | Some e \<Rightarrow> Format_RFC3339 L e),
             orNone (strings_Join (Usages t) '',''),
             orNone (Description t),
             orNone (strings_Join (Groups t) '','')]"
    have j: "r = strings_Join ?fields tab"
      unfolding r hr_fst_Join c ..
    have "(\<forall>f \<in> set ?fields. CHR 0x09 \<notin> set f) \<longrightarrow> cells r = ?fields"
      unfolding j by (intro impI cells_Join) simp_all
    with j t show "\<exists>t \<in> set (decoded dec secrets). \<exists>n.
          let fields =
            [String (Token t),
             (case Expires t of None \<Rightarrow> ''<forever>''
              | Some e \<Rightarrow> ShortHumanDuration L (Sub L e (clock w n))),
             (case Expires t of None \<Rightarrow> ''<never>'' | Some e \<Rightarrow> Format_RFC3339 L e),
             orNone (strings_Join (Usages t) '',''),
             orNone (Description t),
             orNone (strings_Join (Groups t) '','')]
          in r = strings_Join fields tab
             \<and> ((\<forall>f \<in> set fields. CHR 0x09 \<notin> set f) \<longrightarrow> cells r = fields)"
      unfolding Let_def by blast
  qed
  from o hj hc rs show ?thesis by blast
qed

theorem RunListTokens_header_and_row_columns_witness:
  "Secrets_List memClient NamespaceSystem [(''type'', SecretTypeBootstrapToken)]
       (store (exampleWorld [goodSecret])) = (Inr [goodSecret], [goodSecret])
   \<and> (\<exists>rows. out (snd (RunListTokens exampleLib exampleDecode memClient
          (exampleWorld [goodSecret]))) = [Tabwriter (header # rows)])
   \<and> cells header = [''TOKEN'', ''TTL'', ''EXPIRES'', ''USAGES'', ''DESCRIPTION'', ''EXTRA GROUPS'']
   \<and> cells (fst (humanReadableBootstrapToken exampleLib exampleToken (exampleWorld [goodSecret])))
       = [''abcdef.0123456789abcdef'', ''<forever>'', ''<never>'', ''<none>'', ''<none>'', ''<none>'']"
proof -
  let ?w = "exampleWorld [goodSecret]"
  have h: "Secrets_List memClient NamespaceSystem [(''type'', SecretTypeBootstrapToken)] (store ?w)
     = (Inr [goodSecret], [goodSecret])"
    by (simp add: memClient_def exampleWorld_def goodSecret_def)
  have w0: "out ?w = []"
    by (simp add: exampleWorld_def)
  have row: "cells (fst (humanReadableBootstrapToken exampleLib exampleToken ?w))
       = [''abcdef.0123456789abcdef'', ''<forever>'', ''<never>'', ''<none>'', ''<none>'', ''<none>'']"
    by (simp add: hr_fst exampleToken_def String_def orNone_def tab_def)
  from RunListTokens_header_and_row_columns [OF h, of exampleLib exampleDecode] h row show ?thesis
    unfolding w0 by auto
qed

text \<open>
  C7. An input that is neither a valid bare ID nor a full token makes \<open>RunDeleteTokens\<close>
  return the format error at once, the world untouched: no delete is issued for it. In a
  batch, the world after the call is the world after the inputs before it, and the call
  returns the format error of the input whenever the inputs before it succeeded.
\<close>

theorem RunDeleteTokens_invalid_input_no_store_call:
  assumes "\<not> IsValidBootstrapTokenID x" and "NewBootstrapTokenString x = Inl err"
  shows "RunDeleteTokens c (x # post) w = (Some (invalidFormat x), w)
     \<and> snd (RunDeleteTokens c (pre @ x # post) w) = snd (RunDeleteTokens c pre w)
     \<and> (fst (RunDeleteTokens c pre w) = None \<longrightarrow>
          fst (RunDeleteTokens c (pre @ x # post) w) = Some (invalidFormat x))"
proof -
  from assms have n: "tokenIDOf x = None"
    by (simp add: tokenIDOf_def)
  show ?thesis
    by (simp add: RunDeleteTokens_append RunDeleteTokens_invalid [OF n]
        split: prod.split option.split)
qed

theorem RunDeleteTokens_invalid_input_no_store_call_witness:
  "\<not> IsValidBootstrapTokenID ''bad-format''
   \<and> NewBootstrapTokenString ''bad-format'' = Inl (ErrorString ''InvalidFormat'')
   \<and> fst (RunDeleteTokens memClient [''abcdef'', ''bad-format'', ''ghijkl'']
          (exampleWorld [goodSecret])) = Some (invalidFormat ''bad-format'')
   \<and> calls (snd (RunDeleteTokens memClient [''abcdef'', ''bad-format'', ''ghijkl'']
          (exampleWorld [goodSecret]))) = [DeleteCall ''kube-system'' ''bootstrap-token-abcdef'']"
proof -
  have h: "\<not> IsValidBootstrapTokenID ''bad-format''"
    "NewBootstrapTokenString ''bad-format'' = Inl (ErrorString ''InvalidFormat'')"
    by (simp_all add: IsValidBootstrapTokenID_def NewBootstrapTokenString_def)
  have pre: "fst (RunDeleteTokens memClient [''abcdef''] (exampleWorld [goodSecret])) = None"
    "calls (snd (RunDeleteTokens memClient [''abcdef''] (exampleWorld [goodSecret]))) =
       [DeleteCall ''kube-system'' ''bootstrap-token-abcdef'']"
    by (simp_all add: RunDeleteTokens.simps(2) call_Delete_def helper_defs example_defs)
  from RunDeleteTokens_invalid_input_no_store_call [OF h, of memClient "[''ghijkl'']" "exampleWorld [goodSecret]" "[''abcdef'']"]
    h pre
  show ?thesis
    by simp
qed

text \<open>
  C9. The format error quotes the input and then carries \<open>BootstrapTokenIDPattern\<close> in both
  of its pattern places; the second one is not the pattern of the full token.
\<close>

theorem RunDeleteTokens_error_names_ID_pattern_twice:
  assumes "\<not> IsValidBootstrapTokenID x" and "NewBootstrapTokenString x = Inl err"
  shows "fst (RunDeleteTokens c (x # rest) w) =
       Some (Errorf ''given token %q didn't match pattern %q or %q''
               [x, BootstrapTokenIDPattern, BootstrapTokenIDPattern])
     \<and> fst (RunDeleteTokens c (x # rest) w) \<noteq>
       Some (Errorf ''given token %q didn't match pattern %q or %q''
               [x, BootstrapTokenIDPattern, BootstrapTokenPattern])"
  using assms
  by (simp add: RunDeleteTokens.simps(2) BootstrapTokenIDPattern_def BootstrapTokenPattern_def)

theorem RunDeleteTokens_error_names_ID_pattern_twice_witness:
  "\<not> IsValidBootstrapTokenID ''bad-format''
   \<and> NewBootstrapTokenString ''bad-format'' = Inl (ErrorString ''InvalidFormat'')
   \<and> fst (RunDeleteTokens memClient [''bad-format'', ''abcdef''] (exampleWorld [goodSecret])) =
       Some (Errorf ''given token %q didn't match pattern %q or %q''
               [''bad-format'', ''[a-z0-9]{6}'', ''[a-z0-9]{6}''])"
proof -
  have h: "\<not> IsValidBootstrapTokenID ''bad-format''"
    "NewBootstrapTokenString ''bad-format'' = Inl (ErrorString ''InvalidFormat'')"
    by (simp_all add: IsValidBootstrapTokenID_def NewBootstrapTokenString_def)
  from RunDeleteTokens_error_names_ID_pattern_twice [OF h, of memClient "[''abcdef'']" "exampleWorld [goodSecret]"] h
  show ?thesis
    by (simp add: BootstrapTokenIDPattern_def)
qed

text \<open>
  C10. Whenever the list call itself succeeds, \<open>RunListTokens\<close> returns \<open>nil\<close>, however many
  records fail to decode: their errors go to \<open>errW\<close> only, and \<open>out\<close> receives the header and
  one row for each record that decodes.
\<close>

theorem RunListTokens_returns_nil_despite_decode_errors:
  assumes "Secrets_List client NamespaceSystem [(''type'', SecretTypeBootstrapToken)] (store w)
             = (Inr secrets, s')"
  shows "fst (RunListTokens L dec client w) = None
     \<and> errW (snd (RunListTokens L dec client w)) =
         errW w @ map (\<lambda>e. Fprintf ''%v'' [E e]) (decodeErrors dec secrets)
     \<and> (\<exists>rows. out (snd (RunListTokens L dec client w)) = out w @ [Tabwriter (header # rows)]
          \<and> length rows = length (decoded dec secrets))
     \<and> length (decoded dec secrets) + length (decodeErrors dec secrets) = length secrets"
proof -
  have "length (decoded dec secrets) + length (decodeErrors dec secrets) = length secrets"
    by (induction secrets)
      (simp_all add: decoded_Nil decodeErrors_Nil decoded_Cons decodeErrors_Cons split: sum.split)
  then show ?thesis
    by (simp add: RunListTokens_ok [OF assms] renderAll_length)
qed

theorem RunListTokens_returns_nil_despite_decode_errors_witness:
  "Secrets_List memClient NamespaceSystem [(''type'', SecretTypeBootstrapToken)]
       (store (exampleWorld [corruptedSecret]))
     = (Inr [corruptedSecret], [corruptedSecret])
   \<and> fst (RunListTokens exampleLib exampleDecode memClient (exampleWorld [corruptedSecret])) = None
   \<and> errW (snd (RunListTokens exampleLib exampleDecode memClient
        (exampleWorld [corruptedSecret]))) = [Fprintf ''%v'' [E (ErrorString ''MalformedRecord'')]]
   \<and> out (snd (RunListTokens exampleLib exampleDecode memClient
        (exampleWorld [corruptedSecret]))) = [Tabwriter [header]]"
proof -
  let ?w = "exampleWorld [corruptedSecret]"
  have h: "Secrets_List memClient NamespaceSystem [(''type'', SecretTypeBootstrapToken)] (store ?w)
     = (Inr [corruptedSecret], [corruptedSecret])"
    by (simp add: memClient_def exampleWorld_def corruptedSecret_def)
  have d: "exampleDecode corruptedSecret = Inl (ErrorString ''MalformedRecord'')"
    by (simp add: exampleDecode_def corruptedSecret_def)
  have w0: "out ?w = []" "errW ?w = []"
    by (simp_all add: exampleWorld_def)
  have ds: "decoded exampleDecode [corruptedSecret] = []"
    "decodeErrors exampleDecode [corruptedSecret] = [ErrorString ''MalformedRecord'']"
    by (simp_all add: decoded_Cons decodeErrors_Cons decoded_Nil decodeErrors_Nil d)
  from RunListTokens_returns_nil_despite_decode_errors [OF h, of exampleLib exampleDecode] h show ?thesis
    unfolding ds w0 by auto
qed

end
